theory Spec2Isabelle
  imports Main
begin

section \<open>Strings, as the Go runtime treats them\<close>

text \<open>
  Environment names and values are byte strings, modelled as \<^typ>\<open>string\<close>. The case
  mapping, the character classes of the regular expressions and the white space that
  the libraries trim are modelled on the ASCII range, where the Go functions and these
  definitions agree; other bytes are left as they are.
\<close>

definition is_upper :: "char \<Rightarrow> bool" where
  "is_upper c = (c \<in> set ''ABCDEFGHIJKLMNOPQRSTUVWXYZ'')"

definition is_digit :: "char \<Rightarrow> bool" where
  "is_digit c = (c \<in> set ''0123456789'')"

definition is_space :: "char \<Rightarrow> bool" where
  "is_space c = (c \<in> set [CHR 0x09, CHR 0x0A, CHR 0x0B, CHR 0x0C, CHR 0x0D, CHR 0x20])"

definition upper_char :: "char \<Rightarrow> char" where
  "upper_char c =
     (case map_of (zip ''abcdefghijklmnopqrstuvwxyz'' ''ABCDEFGHIJKLMNOPQRSTUVWXYZ'') c of
        Some u \<Rightarrow> u
      | None \<Rightarrow> c)"

text \<open>\<^verbatim>\<open>strings.ToUpper\<close>.\<close>

definition ToUpper :: "string \<Rightarrow> string" where
  "ToUpper s = map upper_char s"

text \<open>\<^verbatim>\<open>strings.TrimSpace\<close>.\<close>

definition TrimSpace :: "string \<Rightarrow> string" where
  "TrimSpace s = rev (dropWhile is_space (rev (dropWhile is_space s)))"

text \<open>\<^verbatim>\<open>strings.Join\<close>.\<close>

fun Join :: "string list \<Rightarrow> string \<Rightarrow> string" where
  "Join [] sep = []"
| "Join [x] sep = x"
| "Join (x # y # ys) sep = x @ sep @ Join (y # ys) sep"

text \<open>\<^verbatim>\<open>strings.Split(value, ",")\<close>: the pieces between the commas, at least one piece.\<close>

fun split_comma :: "string \<Rightarrow> string list" where
  "split_comma [] = [[]]"
| "split_comma (c # cs) =
     (if c = CHR '','' then [] # split_comma cs
      else (case split_comma cs of
              [] \<Rightarrow> [[c]]
            | w # ws \<Rightarrow> (c # w) # ws))"

text \<open>
  \<^verbatim>\<open>strconv.ParseBool\<close>, the coercion that envconfig applies to a field of kind bool:
  a switch over twelve literals, anything else is a syntax error.
\<close>

definition ParseBool :: "string \<Rightarrow> bool option" where
  "ParseBool str =
     (if str \<in> set [''1'', ''t'', ''T'', ''true'', ''TRUE'', ''True''] then Some True
      else if str \<in> set [''0'', ''f'', ''F'', ''false'', ''FALSE'', ''False''] then Some False
      else None)"

text \<open>
  \<^verbatim>\<open>justNumbers = regexp.MustCompile(`^\d+$`)\<close> (line 10) and its \<^verbatim>\<open>MatchString\<close>:
  at the start of the text one digit, then greedily the digits that follow, then the
  end of the text.
\<close>

fun match_digits :: "string \<Rightarrow> string option" where
  "match_digits [] = None"
| "match_digits (c # cs) = (if is_digit c then Some (dropWhile is_digit cs) else None)"

definition justNumbers :: "string \<Rightarrow> bool" where
  "justNumbers s = (match_digits s = Some [])"

section \<open>The configuration record\<close>

text \<open>
  An \<^verbatim>\<open>io.Writer\<close> is an interface value: \<open>None\<close> is \<^verbatim>\<open>nil\<close>, \<open>Some w\<close> a
  destination identified by \<open>w\<close>.
\<close>

type_synonym writer = nat

record Config =
  Command :: string
  DroneEvent :: string
  UpdateDependencies :: bool
  AddRepos :: "string list"
  Prefix :: string
  Debug :: bool
  Values :: string
  StringValues :: string
  ValuesFiles :: "string list"
  Namespace :: string
  KubeToken :: string
  SkipTLSVerify :: bool
  Certificate :: string
  APIServer :: string
  ServiceAccount :: string
  ChartVersion :: string
  DryRun :: bool
  Wait :: bool
  ReuseValues :: bool
  Timeout :: string
  Chart :: string
  Release :: string
  Force :: bool
  Stdout :: "writer option"
  Stderr :: "writer option"

text \<open>The struct fields that envconfig visits (the two writers are tagged \<^verbatim>\<open>ignored\<close>).\<close>

datatype field =
    F_Command | F_DroneEvent | F_UpdateDependencies | F_AddRepos | F_Prefix | F_Debug
  | F_Values | F_StringValues | F_ValuesFiles | F_Namespace | F_KubeToken
  | F_SkipTLSVerify | F_Certificate | F_APIServer | F_ServiceAccount | F_ChartVersion
  | F_DryRun | F_Wait | F_ReuseValues | F_Timeout | F_Chart | F_Release | F_Force

definition all_fields :: "field list" where
  "all_fields =
     [F_Command, F_DroneEvent, F_UpdateDependencies, F_AddRepos, F_Prefix, F_Debug,
      F_Values, F_StringValues, F_ValuesFiles, F_Namespace, F_KubeToken,
      F_SkipTLSVerify, F_Certificate, F_APIServer, F_ServiceAccount, F_ChartVersion,
      F_DryRun, F_Wait, F_ReuseValues, F_Timeout, F_Chart, F_Release, F_Force]"

datatype kind = KString | KBool | KStrings

datatype val = VString string | VBool bool | VStrings "string list"

text \<open>Lines 18 to 40: name, \<^verbatim>\<open>envconfig\<close> tag, \<^verbatim>\<open>split_words\<close> tag and type of each field.\<close>

fun struct_tags :: "field \<Rightarrow> string \<times> string \<times> bool \<times> kind" where
  "struct_tags F_Command = (''Command'', ''HELM_COMMAND'', False, KString)"
| "struct_tags F_DroneEvent = (''DroneEvent'', ''DRONE_BUILD_EVENT'', False, KString)"
| "struct_tags F_UpdateDependencies = (''UpdateDependencies'', '''', True, KBool)"
| "struct_tags F_AddRepos = (''AddRepos'', ''HELM_REPOS'', False, KStrings)"
| "struct_tags F_Prefix = (''Prefix'', '''', False, KString)"
| "struct_tags F_Debug = (''Debug'', '''', False, KBool)"
| "struct_tags F_Values = (''Values'', '''', False, KString)"
| "struct_tags F_StringValues = (''StringValues'', '''', True, KString)"
| "struct_tags F_ValuesFiles = (''ValuesFiles'', '''', True, KStrings)"
| "struct_tags F_Namespace = (''Namespace'', '''', False, KString)"
| "struct_tags F_KubeToken = (''KubeToken'', ''KUBERNETES_TOKEN'', False, KString)"
| "struct_tags F_SkipTLSVerify = (''SkipTLSVerify'', ''SKIP_TLS_VERIFY'', False, KBool)"
| "struct_tags F_Certificate = (''Certificate'', ''KUBERNETES_CERTIFICATE'', False, KString)"
| "struct_tags F_APIServer = (''APIServer'', ''API_SERVER'', False, KString)"
| "struct_tags F_ServiceAccount = (''ServiceAccount'', '''', True, KString)"
| "struct_tags F_ChartVersion = (''ChartVersion'', '''', True, KString)"
| "struct_tags F_DryRun = (''DryRun'', '''', True, KBool)"
| "struct_tags F_Wait = (''Wait'', '''', False, KBool)"
| "struct_tags F_ReuseValues = (''ReuseValues'', '''', True, KBool)"
| "struct_tags F_Timeout = (''Timeout'', '''', False, KString)"
| "struct_tags F_Chart = (''Chart'', '''', False, KString)"
| "struct_tags F_Release = (''Release'', '''', False, KString)"
| "struct_tags F_Force = (''Force'', '''', False, KBool)"

definition field_name :: "field \<Rightarrow> string" where
  "field_name f = fst (struct_tags f)"

definition envconfig_tag :: "field \<Rightarrow> string" where
  "envconfig_tag f = fst (snd (struct_tags f))"

definition split_words_tag :: "field \<Rightarrow> bool" where
  "split_words_tag f = fst (snd (snd (struct_tags f)))"

definition kind_of :: "field \<Rightarrow> kind" where
  "kind_of f = snd (snd (snd (struct_tags f)))"

text \<open>Reading a field by reflection.\<close>

fun get_field :: "field \<Rightarrow> Config \<Rightarrow> val" where
  "get_field F_Command c = VString (Command c)"
| "get_field F_DroneEvent c = VString (DroneEvent c)"
| "get_field F_UpdateDependencies c = VBool (UpdateDependencies c)"
| "get_field F_AddRepos c = VStrings (AddRepos c)"
| "get_field F_Prefix c = VString (Prefix c)"
| "get_field F_Debug c = VBool (Debug c)"
| "get_field F_Values c = VString (Values c)"
| "get_field F_StringValues c = VString (StringValues c)"
| "get_field F_ValuesFiles c = VStrings (ValuesFiles c)"
| "get_field F_Namespace c = VString (Namespace c)"
| "get_field F_KubeToken c = VString (KubeToken c)"
| "get_field F_SkipTLSVerify c = VBool (SkipTLSVerify c)"
| "get_field F_Certificate c = VString (Certificate c)"
| "get_field F_APIServer c = VString (APIServer c)"
| "get_field F_ServiceAccount c = VString (ServiceAccount c)"
| "get_field F_ChartVersion c = VString (ChartVersion c)"
| "get_field F_DryRun c = VBool (DryRun c)"
| "get_field F_Wait c = VBool (Wait c)"
| "get_field F_ReuseValues c = VBool (ReuseValues c)"
| "get_field F_Timeout c = VString (Timeout c)"
| "get_field F_Chart c = VString (Chart c)"
| "get_field F_Release c = VString (Release c)"
| "get_field F_Force c = VBool (Force c)"

text \<open>
  Writing a field by reflection (\<^verbatim>\<open>SetString\<close>, \<^verbatim>\<open>SetBool\<close>, \<^verbatim>\<open>Set\<close>). A value of another
  kind than the field's is never passed, see \<open>processField\<close>; the record is then left
  as it is.
\<close>

definition str_of :: "val \<Rightarrow> string option" where
  "str_of v = (case v of VString s \<Rightarrow> Some s | _ \<Rightarrow> None)"

definition bool_of :: "val \<Rightarrow> bool option" where
  "bool_of v = (case v of VBool b \<Rightarrow> Some b | _ \<Rightarrow> None)"

definition strs_of :: "val \<Rightarrow> string list option" where
  "strs_of v = (case v of VStrings xs \<Rightarrow> Some xs | _ \<Rightarrow> None)"

fun set_field :: "field \<Rightarrow> val \<Rightarrow> Config \<Rightarrow> Config" where
  "set_field F_Command v c = (case str_of v of Some s \<Rightarrow> c\<lparr>Command := s\<rparr> | None \<Rightarrow> c)"
| "set_field F_DroneEvent v c = (case str_of v of Some s \<Rightarrow> c\<lparr>DroneEvent := s\<rparr> | None \<Rightarrow> c)"
| "set_field F_UpdateDependencies v c =
     (case bool_of v of Some b \<Rightarrow> c\<lparr>UpdateDependencies := b\<rparr> | None \<Rightarrow> c)"
| "set_field F_AddRepos v c = (case strs_of v of Some xs \<Rightarrow> c\<lparr>AddRepos := xs\<rparr> | None \<Rightarrow> c)"
| "set_field F_Prefix v c = (case str_of v of Some s \<Rightarrow> c\<lparr>Prefix := s\<rparr> | None \<Rightarrow> c)"
| "set_field F_Debug v c = (case bool_of v of Some b \<Rightarrow> c\<lparr>Debug := b\<rparr> | None \<Rightarrow> c)"
| "set_field F_Values v c = (case str_of v of Some s \<Rightarrow> c\<lparr>Values := s\<rparr> | None \<Rightarrow> c)"
| "set_field F_StringValues v c =
     (case str_of v of Some s \<Rightarrow> c\<lparr>StringValues := s\<rparr> | None \<Rightarrow> c)"
| "set_field F_ValuesFiles v c =
     (case strs_of v of Some xs \<Rightarrow> c\<lparr>ValuesFiles := xs\<rparr> | None \<Rightarrow> c)"
| "set_field F_Namespace v c = (case str_of v of Some s \<Rightarrow> c\<lparr>Namespace := s\<rparr> | None \<Rightarrow> c)"
| "set_field F_KubeToken v c = (case str_of v of Some s \<Rightarrow> c\<lparr>KubeToken := s\<rparr> | None \<Rightarrow> c)"
| "set_field F_SkipTLSVerify v c =
     (case bool_of v of Some b \<Rightarrow> c\<lparr>SkipTLSVerify := b\<rparr> | None \<Rightarrow> c)"
| "set_field F_Certificate v c =
     (case str_of v of Some s \<Rightarrow> c\<lparr>Certificate := s\<rparr> | None \<Rightarrow> c)"
| "set_field F_APIServer v c = (case str_of v of Some s \<Rightarrow> c\<lparr>APIServer := s\<rparr> | None \<Rightarrow> c)"
| "set_field F_ServiceAccount v c =
     (case str_of v of Some s \<Rightarrow> c\<lparr>ServiceAccount := s\<rparr> | None \<Rightarrow> c)"
| "set_field F_ChartVersion v c =
     (case str_of v of Some s \<Rightarrow> c\<lparr>ChartVersion := s\<rparr> | None \<Rightarrow> c)"
| "set_field F_DryRun v c = (case bool_of v of Some b \<Rightarrow> c\<lparr>DryRun := b\<rparr> | None \<Rightarrow> c)"
| "set_field F_Wait v c = (case bool_of v of Some b \<Rightarrow> c\<lparr>Wait := b\<rparr> | None \<Rightarrow> c)"
| "set_field F_ReuseValues v c =
     (case bool_of v of Some b \<Rightarrow> c\<lparr>ReuseValues := b\<rparr> | None \<Rightarrow> c)"
| "set_field F_Timeout v c = (case str_of v of Some s \<Rightarrow> c\<lparr>Timeout := s\<rparr> | None \<Rightarrow> c)"
| "set_field F_Chart v c = (case str_of v of Some s \<Rightarrow> c\<lparr>Chart := s\<rparr> | None \<Rightarrow> c)"
| "set_field F_Release v c = (case str_of v of Some s \<Rightarrow> c\<lparr>Release := s\<rparr> | None \<Rightarrow> c)"
| "set_field F_Force v c = (case bool_of v of Some b \<Rightarrow> c\<lparr>Force := b\<rparr> | None \<Rightarrow> c)"

section \<open>The envconfig library\<close>

text \<open>
  \<^verbatim>\<open>envconfig.Process\<close> (github.com/kelseyhightower/envconfig, imported at line 5) is
  embedded as the library defines it: \<^verbatim>\<open>gatherInfo\<close> computes one key per field,
  \<^verbatim>\<open>Process\<close> looks each key up and hands the value found to \<^verbatim>\<open>processField\<close>.
\<close>

type_synonym env = "string \<rightharpoonup> string"

datatype error = ParseError (KeyName: string) (FieldName: string) (TypeName: string) (Value: string)

text \<open>
  The \<^verbatim>\<open>split_words\<close> rewriting of a field name. The library cuts the name into
  the matches of \<^verbatim>\<open>([^A-Z]+|[A-Z]+[^A-Z]+|[A-Z]+)\<close>, cuts a match with a leading acronym
  once more before its last capital (\<^verbatim>\<open>([A-Z]+)([A-Z][^A-Z]+)\<close>) and joins the words
  with an underscore. So an underscore goes before every capital that follows a
  non-capital, and before every capital that follows a capital and precedes a
  non-capital; \<open>prev\<close> is the character before.
\<close>

fun split_words :: "char option \<Rightarrow> string \<Rightarrow> string" where
  "split_words prev [] = []"
| "split_words prev (c # cs) =
     (if is_upper c \<and>
         (case prev of
            None \<Rightarrow> False
          | Some p \<Rightarrow> \<not> is_upper p \<or> (case cs of [] \<Rightarrow> False | d # ds \<Rightarrow> \<not> is_upper d))
      then CHR ''_'' # c # split_words (Some c) cs
      else c # split_words (Some c) cs)"

text \<open>\<^verbatim>\<open>info.Alt\<close>: the upper-cased \<^verbatim>\<open>envconfig\<close> tag.\<close>

definition alt_key :: "field \<Rightarrow> string" where
  "alt_key f = ToUpper (envconfig_tag f)"

text \<open>\<^verbatim>\<open>info.Key\<close>, as \<^verbatim>\<open>gatherInfo\<close> computes it for a prefix.\<close>

definition env_key :: "string \<Rightarrow> field \<Rightarrow> string" where
  "env_key prefix f =
     (let key = field_name f;
          key = (if split_words_tag f then split_words None key else key);
          key = (if alt_key f \<noteq> [] then alt_key f else key);
          key = (if prefix \<noteq> [] then prefix @ ''_'' @ key else key)
      in ToUpper key)"

text \<open>
  The lookup of \<^verbatim>\<open>Process\<close>: the key, and when it is not set and the field has an
  \<^verbatim>\<open>envconfig\<close> tag, the bare tag.
\<close>

definition lookupEnv :: "env \<Rightarrow> string \<Rightarrow> field \<Rightarrow> string option" where
  "lookupEnv e prefix f =
     (case e (env_key prefix f) of
        Some v \<Rightarrow> Some v
      | None \<Rightarrow> if alt_key f \<noteq> [] then e (alt_key f) else None)"

text \<open>The conversion of \<^verbatim>\<open>processField\<close>, by the kind of the field.\<close>

fun decode :: "kind \<Rightarrow> string \<Rightarrow> val option" where
  "decode KString v = Some (VString v)"
| "decode KBool v = map_option VBool (ParseBool v)"
| "decode KStrings v =
     Some (VStrings (if TrimSpace v \<noteq> [] then split_comma v else []))"

definition type_name :: "kind \<Rightarrow> string" where
  "type_name k = (case k of KString \<Rightarrow> ''string'' | KBool \<Rightarrow> ''bool'' | KStrings \<Rightarrow> ''[]string'')"

definition processField :: "string \<Rightarrow> field \<Rightarrow> Config \<Rightarrow> Config option" where
  "processField v f c = map_option (\<lambda>x. set_field f x c) (decode (kind_of f) v)"

text \<open>
  The loop of \<^verbatim>\<open>Process\<close> over the fields: a field whose variable is not set is
  skipped, the first value that does not convert ends the loop with a \<^verbatim>\<open>ParseError\<close>.
\<close>

fun process_fields :: "env \<Rightarrow> string \<Rightarrow> field list \<Rightarrow> Config \<Rightarrow> error + Config" where
  "process_fields e prefix [] c = Inr c"
| "process_fields e prefix (f # fs) c =
     (case lookupEnv e prefix f of
        None \<Rightarrow> process_fields e prefix fs c
      | Some v \<Rightarrow>
          (case processField v f c of
             None \<Rightarrow> Inl (ParseError (env_key prefix f) (field_name f) (type_name (kind_of f)) v)
           | Some c' \<Rightarrow> process_fields e prefix fs c'))"

definition Process :: "env \<Rightarrow> string \<Rightarrow> Config \<Rightarrow> error + Config" where
  "Process e prefix c = process_fields e prefix all_fields c"

section \<open>NewConfig and logDebug\<close>

text \<open>The zero value of the struct, with the two writers of line 48 to 51.\<close>

definition zero_Config :: "writer option \<Rightarrow> writer option \<Rightarrow> Config" where
  "zero_Config out err =
     \<lparr>Command = [], DroneEvent = [], UpdateDependencies = False, AddRepos = [], Prefix = [],
      Debug = False, Values = [], StringValues = [], ValuesFiles = [], Namespace = [],
      KubeToken = [], SkipTLSVerify = False, Certificate = [], APIServer = [],
      ServiceAccount = [], ChartVersion = [], DryRun = False, Wait = False,
      ReuseValues = False, Timeout = [], Chart = [], Release = [], Force = False,
      Stdout = out, Stderr = err\<rparr>"

text \<open>
  Lines 52 to 66, the three passes. The guard of the third pass tests the local
  \<^verbatim>\<open>prefix\<close>, taken after the first pass; the call is \<^verbatim>\<open>envconfig.Process(cfg.Prefix, &cfg)\<close>,
  with the field as it is after the second pass.
\<close>

definition three_passes :: "env \<Rightarrow> writer option \<Rightarrow> writer option \<Rightarrow> error + Config" where
  "three_passes e out err =
     (case Process e ''plugin'' (zero_Config out err) of
        Inl x \<Rightarrow> Inl x
      | Inr cfg1 \<Rightarrow>
          (let prefix = Prefix cfg1 in
           case Process e [] cfg1 of
             Inl x \<Rightarrow> Inl x
           | Inr cfg2 \<Rightarrow>
               if prefix \<noteq> [] then Process e (Prefix cfg2) cfg2 else Inr cfg2))"

text \<open>Lines 68 to 70.\<close>

definition infer_seconds :: "Config \<Rightarrow> Config" where
  "infer_seconds cfg =
     (if justNumbers (Timeout cfg) then cfg\<lparr>Timeout := Timeout cfg @ ''s''\<rparr> else cfg)"

text \<open>
  The \<^verbatim>\<open>%+v\<close> rendering of the struct: \<^verbatim>\<open>{Name:value Name:value ...}\<close> in declaration
  order, a string as it is, a bool as \<^verbatim>\<open>true\<close> or \<^verbatim>\<open>false\<close>, a list in brackets with
  spaces between its elements, a nil interface as \<^verbatim>\<open><nil>\<close>. What is printed for a
  writer depends on its dynamic type and is the parameter \<open>show_w\<close>.
\<close>

fun fmt_val :: "val \<Rightarrow> string" where
  "fmt_val (VString s) = s"
| "fmt_val (VBool b) = (if b then ''true'' else ''false'')"
| "fmt_val (VStrings xs) = ''['' @ Join xs '' '' @ '']''"

definition fmt_writer :: "(writer \<Rightarrow> string) \<Rightarrow> writer option \<Rightarrow> string" where
  "fmt_writer show_w w = (case w of None \<Rightarrow> ''<nil>'' | Some x \<Rightarrow> show_w x)"

definition fmt_items :: "(writer \<Rightarrow> string) \<Rightarrow> Config \<Rightarrow> string list" where
  "fmt_items show_w cfg =
     map (\<lambda>f. field_name f @ '':'' @ fmt_val (get_field f cfg)) all_fields @
     [''Stdout:'' @ fmt_writer show_w (Stdout cfg), ''Stderr:'' @ fmt_writer show_w (Stderr cfg)]"

definition fmt_struct :: "(writer \<Rightarrow> string) \<Rightarrow> Config \<Rightarrow> string" where
  "fmt_struct show_w cfg = ''{'' @ Join (fmt_items show_w cfg) '' '' @ ''}''"

text \<open>
  One call of \<^verbatim>\<open>fmt.Fprintf\<close>: the destination and the text written. A call on a nil
  destination panics.
\<close>

type_synonym call = "writer option \<times> string"

text \<open>
  Lines 79 to 84. The receiver is passed by value: the assignment changes the copy
  \<open>cfg'\<close>, and the method returns nothing but its effect.
\<close>

definition logDebug :: "(writer \<Rightarrow> string) \<Rightarrow> Config \<Rightarrow> call list" where
  "logDebug show_w cfg =
     (let cfg' = (if KubeToken cfg \<noteq> [] then cfg\<lparr>KubeToken := ''(redacted)''\<rparr> else cfg)
      in [(Stderr cfg', ''Generated config: '' @ fmt_struct show_w cfg' @ [CHR 0x0A])])"

text \<open>
  Lines 47 to 77. The result is the pair of Go (\<open>Inl\<close> stands for \<^verbatim>\<open>nil, err\<close>) and
  the calls of \<^verbatim>\<open>Fprintf\<close> made.
\<close>

definition NewConfig :: "(writer \<Rightarrow> string) \<Rightarrow> env \<Rightarrow> writer option \<Rightarrow> writer option \<Rightarrow>
    (error + Config) \<times> call list" where
  "NewConfig show_w e out err =
     (case three_passes e out err of
        Inl x \<Rightarrow> (Inl x, [])
      | Inr cfg3 \<Rightarrow>
          (let cfg = infer_seconds cfg3
           in (Inr cfg, if Debug cfg \<and> Stderr cfg \<noteq> None then logDebug show_w cfg else [])))"

section \<open>Notions used to state the properties\<close>

text \<open>
  What the record holds in its prefix field after the first pass (the value of
  \<^verbatim>\<open>PLUGIN_PREFIX\<close>, or the empty string), and after the second pass (the value of a
  bare \<^verbatim>\<open>PREFIX\<close> when there is one).
\<close>

definition captured_prefix :: "env \<Rightarrow> string" where
  "captured_prefix e = (case e ''PLUGIN_PREFIX'' of Some v \<Rightarrow> v | None \<Rightarrow> [])"

definition third_prefix :: "env \<Rightarrow> string" where
  "third_prefix e = (case e ''PREFIX'' of Some v \<Rightarrow> v | None \<Rightarrow> captured_prefix e)"





text \<open>\<open>x\<close> occurs in \<open>y\<close> as a run of consecutive characters.\<close>

fun occurs_in :: "string \<Rightarrow> string \<Rightarrow> bool" where
  "occurs_in x [] = (x = [])"
| "occurs_in x (c # cs) = (take (length x) (c # cs) = x \<or> occurs_in x cs)"

text \<open>
  A text without a newline, and a record whose fields (the token apart, which the
  debug line never shows) and writers are printed without a newline.
\<close>

definition newline_free :: "string \<Rightarrow> bool" where
  "newline_free s = (CHR 0x0A \<notin> set s)"

definition plain_fields :: "(writer \<Rightarrow> string) \<Rightarrow> Config \<Rightarrow> bool" where
  "plain_fields show_w cfg =
     (list_all (\<lambda>f. f = F_KubeToken \<or> newline_free (fmt_val (get_field f cfg))) all_fields \<and>
      newline_free (fmt_writer show_w (Stdout cfg)) \<and>
      newline_free (fmt_writer show_w (Stderr cfg)))"

text \<open>Concrete environments, and a rendering of writers as an address.\<close>

definition env_plain :: env where
  "env_plain = map_of [(''PLUGIN_PREFIX'', ''a''), (''A_TIMEOUT'', ''1m''), (''B_TIMEOUT'', ''2m'')]"

definition env_redirect :: env where
  "env_redirect = map_of [(''PLUGIN_PREFIX'', ''a''), (''PREFIX'', ''b''),
     (''A_TIMEOUT'', ''1m''), (''B_TIMEOUT'', ''2m'')]"

definition env_scenario :: env where
  "env_scenario = map_of [(''PLUGIN_PREFIX'', ''prod''), (''TIMEOUT'', ''5m0s''),
     (''PROD_TIMEOUT'', ''2m30s'')]"

definition env_numeric :: env where
  "env_numeric = map_of [(''PLUGIN_PREFIX'', ''prod''), (''TIMEOUT'', ''5''),
     (''PROD_TIMEOUT'', ''42'')]"

definition env_debug :: env where
  "env_debug = map_of [(''DEBUG'', ''true''), (''HELM_COMMAND'', ''upgrade''),
     (''KUBERNETES_TOKEN'', ''upgrade'')]"


definition env_mixed_case :: env where
  "env_mixed_case = map_of [(''PLUGIN_DEBUG'', ''tRuE'')]"


definition env_multiline :: env where
  "env_multiline = map_of [(''DEBUG'', ''true''), (''VALUES'', [CHR ''a'', CHR 0x0A, CHR ''b''])]"

definition show_addr :: "writer \<Rightarrow> string" where
  "show_addr w = ''0xc000010000''"

section \<open>Reading and writing fields\<close>

lemma get_set_same:
  "decode (kind_of f) s = Some v \<Longrightarrow> get_field f (set_field f v c) = v"
  by (cases f; cases v) (auto simp: kind_of_def str_of_def bool_of_def strs_of_def)

lemma get_set_other:
  "f \<noteq> g \<Longrightarrow> get_field f (set_field g v c) = get_field f c"
  by (cases g; cases f) (simp_all add: str_of_def bool_of_def strs_of_def split: val.splits)

lemma writers_set_field:
  "Stdout (set_field g v c) = Stdout c" "Stderr (set_field g v c) = Stderr c"
  by (cases g; simp add: str_of_def bool_of_def strs_of_def split: val.splits)+

lemma distinct_all_fields: "distinct all_fields"
  by (simp add: all_fields_def)

lemma all_fields_complete: "f \<in> set all_fields"
  by (cases f) (simp_all add: all_fields_def)


lemma process_fields_get:
  "process_fields e p fs c = Inr c' \<Longrightarrow> distinct fs \<Longrightarrow>
   (case (if f \<in> set fs then lookupEnv e p f else None) of
      None \<Rightarrow> get_field f c' = get_field f c
    | Some s \<Rightarrow> decode (kind_of f) s = Some (get_field f c'))"
proof (induction fs arbitrary: c)
  case Nil
  then show ?case by simp
next
  case (Cons g fs)
  show ?case
  proof (cases "lookupEnv e p g")
    case None
    with Cons.prems have "process_fields e p fs c = Inr c'" by simp
    from Cons.IH [OF this] Cons.prems(2) None show ?thesis
      by (auto split: if_splits)
  next
    case (Some s)
    with Cons.prems(1) obtain v where v: "decode (kind_of g) s = Some v"
      and rest: "process_fields e p fs (set_field g v c) = Inr c'"
      by (auto simp: processField_def split: option.splits)
    from Cons.prems(2) have d: "distinct fs" and g: "g \<notin> set fs" by simp_all
    note ih = Cons.IH [OF rest d]
    show ?thesis
    proof (cases "f = g")
      case True
      with ih g have "get_field g c' = get_field g (set_field g v c)" by simp
      with v have "get_field g c' = v" by (simp add: get_set_same)
      with True Some v show ?thesis by simp
    next
      case False
      with ih show ?thesis
        by (auto simp: get_set_other split: option.splits if_splits)
    qed
  qed
qed

lemma process_fields_writers:
  "process_fields e p fs c = Inr c' \<Longrightarrow> Stdout c' = Stdout c \<and> Stderr c' = Stderr c"
proof (induction fs arbitrary: c)
  case Nil
  then show ?case by simp
next
  case (Cons g fs)
  then show ?case
    by (auto simp: processField_def writers_set_field split: option.splits)
qed


lemma Process_get:
  "Process e p c = Inr c' \<Longrightarrow>
   (case lookupEnv e p f of
      None \<Rightarrow> get_field f c' = get_field f c
    | Some s \<Rightarrow> decode (kind_of f) s = Some (get_field f c'))"
  using process_fields_get [of e p all_fields c c' f]
  by (simp add: Process_def distinct_all_fields all_fields_complete)

lemma Process_writers:
  "Process e p c = Inr c' \<Longrightarrow> Stdout c' = Stdout c \<and> Stderr c' = Stderr c"
  unfolding Process_def by (rule process_fields_writers)



lemma key_Prefix:
  "env_key ''plugin'' F_Prefix = ''PLUGIN_PREFIX''" "env_key [] F_Prefix = ''PREFIX''"
  "alt_key F_Prefix = []"
  by (simp_all add: env_key_def alt_key_def field_name_def split_words_tag_def envconfig_tag_def
      ToUpper_def upper_char_def)


lemma pass1_Prefix:
  "Process e ''plugin'' (zero_Config out err) = Inr c1 \<Longrightarrow> Prefix c1 = captured_prefix e"
  using Process_get [of e "''plugin''" "zero_Config out err" c1 F_Prefix]
  by (auto simp: lookupEnv_def key_Prefix captured_prefix_def kind_of_def zero_Config_def
      split: option.splits)

lemma pass2_Prefix:
  "Process e [] c1 = Inr c2 \<Longrightarrow> Prefix c2 = (case e ''PREFIX'' of Some v \<Rightarrow> v | None \<Rightarrow> Prefix c1)"
  using Process_get [of e "[]" c1 c2 F_Prefix]
  by (auto simp: lookupEnv_def key_Prefix kind_of_def split: option.splits)

lemma three_passes_Inr:
  assumes "three_passes e out err = Inr c3"
  shows "\<exists>c1 c2. Process e ''plugin'' (zero_Config out err) = Inr c1 \<and> Process e [] c1 = Inr c2 \<and>
           (if captured_prefix e \<noteq> [] then Process e (third_prefix e) c2 = Inr c3 else c3 = c2)"
proof -
  from assms obtain c1 where c1: "Process e ''plugin'' (zero_Config out err) = Inr c1"
    by (auto simp: three_passes_def split: sum.splits)
  with assms obtain c2 where c2: "Process e [] c1 = Inr c2"
    by (auto simp: three_passes_def Let_def split: sum.splits)
  have p1: "Prefix c1 = captured_prefix e" by (rule pass1_Prefix [OF c1])
  have p2: "Prefix c2 = third_prefix e"
    using pass2_Prefix [OF c2] p1 by (simp add: third_prefix_def split: option.splits)
  from assms c1 c2 p1 p2 show ?thesis
    by (auto simp: three_passes_def Let_def split: if_splits)
qed


section \<open>The passes and the normalisation\<close>

lemma justNumbers_iff: "justNumbers s \<longleftrightarrow> s \<noteq> [] \<and> (\<forall>c\<in>set s. is_digit c)"
  by (cases s) (auto simp: justNumbers_def dropWhile_eq_Nil_conv)


lemma writers_infer_seconds:
  "Stdout (infer_seconds c) = Stdout c" "Stderr (infer_seconds c) = Stderr c"
  "Debug (infer_seconds c) = Debug c" "KubeToken (infer_seconds c) = KubeToken c"
  "Prefix (infer_seconds c) = Prefix c"
  by (simp_all add: infer_seconds_def)

lemma NewConfig_Inr:
  "NewConfig sw e out err = (Inr cfg, tr) \<Longrightarrow>
   \<exists>c3. three_passes e out err = Inr c3 \<and> cfg = infer_seconds c3 \<and>
        tr = (if Debug cfg \<and> Stderr cfg \<noteq> None then logDebug sw cfg else [])"
  by (auto simp: NewConfig_def Let_def split: sum.splits)

lemma three_passes_writers:
  assumes "three_passes e out err = Inr c3"
  shows "Stdout c3 = out \<and> Stderr c3 = err"
proof -
  from three_passes_Inr [OF assms] obtain c1 c2 where
    c1: "Process e ''plugin'' (zero_Config out err) = Inr c1" and c2: "Process e [] c1 = Inr c2"
    and c3: "if captured_prefix e \<noteq> [] then Process e (third_prefix e) c2 = Inr c3 else c3 = c2"
    by blast
  have "Stdout c1 = out \<and> Stderr c1 = err" using Process_writers [OF c1] by (simp add: zero_Config_def)
  then have "Stdout c2 = out \<and> Stderr c2 = err" using Process_writers [OF c2] by simp
  then show ?thesis using c3 Process_writers [of e "third_prefix e" c2 c3] by (auto split: if_splits)
qed





lemma fmt_items_KubeToken:
  "length (fmt_items sw c) = 25 \<and> fmt_items sw c ! 10 = ''KubeToken:'' @ KubeToken c"
  by (simp add: fmt_items_def all_fields_def field_name_def)

lemma logDebug_eq:
  "logDebug sw c =
     [(Stderr c, ''Generated config: '' @
        fmt_struct sw (c\<lparr>KubeToken := (if KubeToken c \<noteq> [] then ''(redacted)'' else [])\<rparr>) @ [CHR 0x0A])]"
proof (cases "KubeToken c = []")
  case True
  have "c\<lparr>KubeToken := KubeToken c\<rparr> = c" by simp
  with True have eq: "c\<lparr>KubeToken := []\<rparr> = c" by simp
  from True show ?thesis by (simp add: logDebug_def eq)
next
  case False
  then show ?thesis by (simp add: logDebug_def)
qed



lemma newline_free_append [simp]: "newline_free (xs @ ys) \<longleftrightarrow> newline_free xs \<and> newline_free ys"
  by (auto simp: newline_free_def)

lemma newline_free_Join:
  "list_all newline_free xs \<Longrightarrow> newline_free sep \<Longrightarrow> newline_free (Join xs sep)"
  by (induction xs sep rule: Join.induct) (simp_all add: newline_free_def)

lemma newline_free_field_name: "newline_free (field_name f)"
  by (cases f) (simp_all add: field_name_def newline_free_def)

lemma get_field_redacted:
  "get_field f (c\<lparr>KubeToken := t\<rparr>) = (if f = F_KubeToken then VString t else get_field f c)"
  by (cases f) simp_all

lemma newline_free_struct:
  assumes "plain_fields sw c" and "newline_free t"
  shows "newline_free (fmt_struct sw (c\<lparr>KubeToken := t\<rparr>))"
proof -
  from assms(1) have fs: "\<And>f. f \<noteq> F_KubeToken \<Longrightarrow> newline_free (fmt_val (get_field f c))"
    and w: "newline_free (fmt_writer sw (Stdout c))" "newline_free (fmt_writer sw (Stderr c))"
    by (auto simp: plain_fields_def list_all_iff all_fields_complete)
  have "newline_free (field_name f @ '':'' @ fmt_val (get_field f (c\<lparr>KubeToken := t\<rparr>)))" for f
    using fs [of f] assms(2) newline_free_field_name [of f]
    by (simp add: get_field_redacted) (simp add: newline_free_def)
  then have "list_all newline_free (fmt_items sw (c\<lparr>KubeToken := t\<rparr>))"
    using w by (simp add: fmt_items_def list_all_iff) (simp add: newline_free_def)
  then have "newline_free (Join (fmt_items sw (c\<lparr>KubeToken := t\<rparr>)) '' '')"
    by (rule newline_free_Join) (simp add: newline_free_def)
  then show ?thesis by (simp add: fmt_struct_def) (simp add: newline_free_def)
qed

section \<open>Properties of the configuration loader\<close>

subsection \<open>The namespace of the third pass\<close>

text \<open>
  C1. The claim: when \<^verbatim>\<open>PLUGIN_PREFIX\<close> is set to a non-empty value, the namespace of
  the third pass is determined by that value alone, and a bare \<^verbatim>\<open>PREFIX\<close> variable
  does not change which variables the third pass reads. The code tests the value
  captured after the first pass but calls \<^verbatim>\<open>envconfig.Process(cfg.Prefix, &cfg)\<close> with
  the field as the second pass left it. Evaluated on two environments that differ only
  in a bare \<^verbatim>\<open>PREFIX=b\<close>: without it the timeout comes from \<^verbatim>\<open>A_TIMEOUT\<close>, with it from
  \<^verbatim>\<open>B_TIMEOUT\<close>.
\<close>

theorem bare_PREFIX_redirects_third_pass:
  "env_plain ''PLUGIN_PREFIX'' = Some ''a'' \<and> env_redirect ''PLUGIN_PREFIX'' = Some ''a'' \<and>
   env_plain ''PREFIX'' = None \<and> env_redirect ''PREFIX'' = Some ''b'' \<and>
   fst (NewConfig show_addr env_plain None None) =
     Inr ((zero_Config None None)\<lparr>Prefix := ''a'', Timeout := ''1m''\<rparr>) \<and>
   fst (NewConfig show_addr env_redirect None None) =
     Inr ((zero_Config None None)\<lparr>Prefix := ''b'', Timeout := ''2m''\<rparr>)"
  by code_simp

subsection \<open>Precedence\<close>




subsection \<open>Zero values\<close>



subsection \<open>The seconds rule\<close>

text \<open>
  C4. When the three passes succeed with the record \<open>c3\<close>, \<open>NewConfig\<close> returns a
  record whose timeout is the timeout of \<open>c3\<close> followed by \<^verbatim>\<open>s\<close> if that is a
  non-empty string of decimal digits, and the timeout of \<open>c3\<close> unchanged otherwise.
\<close>

theorem numeric_timeout_gets_seconds_suffix:
  assumes "three_passes e out err = Inr c3"
  shows "\<exists>cfg tr. NewConfig sw e out err = (Inr cfg, tr) \<and>
           Timeout cfg = (if Timeout c3 \<noteq> [] \<and> (\<forall>ch\<in>set (Timeout c3). is_digit ch)
                          then Timeout c3 @ ''s'' else Timeout c3)"
  using assms by (simp add: NewConfig_def Let_def infer_seconds_def justNumbers_iff)

theorem numeric_timeout_gets_seconds_suffix_witness:
  "three_passes env_numeric None None =
     Inr ((zero_Config None None)\<lparr>Prefix := ''prod'', Timeout := ''42''\<rparr>) \<and>
   (\<exists>cfg tr. NewConfig show_addr env_numeric None None = (Inr cfg, tr) \<and> Timeout cfg = ''42s'') \<and>
   three_passes env_scenario None None =
     Inr ((zero_Config None None)\<lparr>Prefix := ''prod'', Timeout := ''2m30s''\<rparr>) \<and>
   (\<exists>cfg tr. NewConfig show_addr env_scenario None None = (Inr cfg, tr) \<and> Timeout cfg = ''2m30s'')"
proof -
  have h1: "three_passes env_numeric None None =
     Inr ((zero_Config None None)\<lparr>Prefix := ''prod'', Timeout := ''42''\<rparr>)" by code_simp
  have h2: "three_passes env_scenario None None =
     Inr ((zero_Config None None)\<lparr>Prefix := ''prod'', Timeout := ''2m30s''\<rparr>)" by code_simp
  from numeric_timeout_gets_seconds_suffix [OF h1, of show_addr]
  have a: "\<exists>cfg tr. NewConfig show_addr env_numeric None None = (Inr cfg, tr) \<and> Timeout cfg = ''42s''"
    by (simp add: is_digit_def)
  from numeric_timeout_gets_seconds_suffix [OF h2, of show_addr]
  have b: "\<exists>cfg tr. NewConfig show_addr env_scenario None None = (Inr cfg, tr) \<and>
             Timeout cfg = ''2m30s''"
    by (simp add: is_digit_def)
  from h1 h2 a b show ?thesis by blast
qed

subsection \<open>The debug line\<close>

text \<open>
  C5, as amended. When \<open>NewConfig\<close> returns a record with the debug flag set and the
  stderr destination is not nil, there is one write, to that destination, of
  \<^verbatim>\<open>Generated config: {...}\<close> and a newline, with the twenty-five items in declaration
  order. The item of the token is \<^verbatim>\<open>KubeToken:(redacted)\<close> when the token is not empty
  and \<^verbatim>\<open>KubeToken:\<close> when it is empty, and the whole line is the same for every
  non-empty token: it does not depend on the token's value.
\<close>

theorem debug_line_redacts_token:
  assumes "NewConfig sw e out err = (Inr cfg, tr)" and "Debug cfg" and "err \<noteq> None"
  shows "\<exists>items. tr = [(err, ''Generated config: {'' @ Join items '' '' @ ''}'' @ [CHR 0x0A])] \<and>
           length items = 25 \<and>
           items ! 10 = (if KubeToken cfg \<noteq> [] then ''KubeToken:(redacted)'' else ''KubeToken:'') \<and>
           (\<forall>t. KubeToken cfg \<noteq> [] \<and> t \<noteq> [] \<longrightarrow> logDebug sw (cfg\<lparr>KubeToken := t\<rparr>) = tr)"
proof -
  from NewConfig_Inr [OF assms(1)] obtain c3 where
    tp: "three_passes e out err = Inr c3" and cfg: "cfg = infer_seconds c3"
    and tr: "tr = (if Debug cfg \<and> Stderr cfg \<noteq> None then logDebug sw cfg else [])" by blast
  have se: "Stderr cfg = err" using three_passes_writers [OF tp] by (simp add: cfg writers_infer_seconds)
  let ?c = "cfg\<lparr>KubeToken := (if KubeToken cfg \<noteq> [] then ''(redacted)'' else [])\<rparr>"
  from tr assms(2,3) se have tr': "tr = logDebug sw cfg" by simp
  have 1: "tr = [(err, ''Generated config: {'' @ Join (fmt_items sw ?c) '' '' @ ''}'' @ [CHR 0x0A])]"
    unfolding tr' logDebug_eq by (simp add: se fmt_struct_def)
  have 2: "length (fmt_items sw ?c) = 25" using fmt_items_KubeToken by blast
  have 3: "fmt_items sw ?c ! 10 =
            (if KubeToken cfg \<noteq> [] then ''KubeToken:(redacted)'' else ''KubeToken:'')"
    using fmt_items_KubeToken [of sw ?c] by simp
  have 4: "\<forall>t. KubeToken cfg \<noteq> [] \<and> t \<noteq> [] \<longrightarrow> logDebug sw (cfg\<lparr>KubeToken := t\<rparr>) = tr"
    unfolding tr' logDebug_eq by simp
  from 1 2 3 4 show ?thesis by blast
qed

theorem debug_line_redacts_token_witness:
  "fst (NewConfig show_addr env_debug (Some 1) (Some 2)) =
     Inr ((zero_Config (Some 1) (Some 2))
            \<lparr>Command := ''upgrade'', Debug := True, KubeToken := ''upgrade''\<rparr>) \<and>
   (\<exists>items. snd (NewConfig show_addr env_debug (Some 1) (Some 2)) =
        [(Some 2, ''Generated config: {'' @ Join items '' '' @ ''}'' @ [CHR 0x0A])] \<and>
      length items = 25 \<and> items ! 10 = ''KubeToken:(redacted)'')"
proof -
  let ?c = "(zero_Config (Some 1) (Some 2))
              \<lparr>Command := ''upgrade'', Debug := True, KubeToken := ''upgrade''\<rparr>"
  have r: "fst (NewConfig show_addr env_debug (Some 1) (Some 2)) = Inr ?c" by code_simp
  then have h1: "NewConfig show_addr env_debug (Some 1) (Some 2) =
      (Inr ?c, snd (NewConfig show_addr env_debug (Some 1) (Some 2)))"
    by (cases "NewConfig show_addr env_debug (Some 1) (Some 2)") simp
  have h2: "Debug ?c" by simp
  have h3: "Some (2::nat) \<noteq> None" by simp
  have k: "KubeToken ?c \<noteq> []" by simp
  from debug_line_redacts_token [OF h1 h2 h3] k
  have "\<exists>items. snd (NewConfig show_addr env_debug (Some 1) (Some 2)) =
        [(Some 2, ''Generated config: {'' @ Join items '' '' @ ''}'' @ [CHR 0x0A])] \<and>
      length items = 25 \<and> items ! 10 = ''KubeToken:(redacted)''"
    by auto
  with r show ?thesis by blast
qed

text \<open>The line of this environment, in full.\<close>

lemma debug_line_example:
  "snd (NewConfig show_addr env_debug (Some 1) (Some 2)) =
     [(Some 2, ''Generated config: {Command:upgrade DroneEvent: UpdateDependencies:false AddRepos:[] Prefix: Debug:true Values: StringValues: ValuesFiles:[] Namespace: KubeToken:(redacted) SkipTLSVerify:false Certificate: APIServer: ServiceAccount: ChartVersion: DryRun:false Wait:false ReuseValues:false Timeout: Chart: Release: Force:false Stdout:0xc000010000 Stderr:0xc000010000}'' @ [CHR 0x0A])]"
  by code_simp

text \<open>
  The claim as it is worded also says that the token's value occurs nowhere in the
  line. Only the token's own item is replaced: with \<^verbatim>\<open>KUBERNETES_TOKEN=upgrade\<close> and
  \<^verbatim>\<open>HELM_COMMAND=upgrade\<close> the line holds \<^verbatim>\<open>Command:upgrade\<close>.
\<close>

theorem token_occurs_counterexample:
  "map_sum id KubeToken (fst (NewConfig show_addr env_debug (Some 1) (Some 2))) = Inr ''upgrade'' \<and>
   map_sum id Debug (fst (NewConfig show_addr env_debug (Some 1) (Some 2))) = Inr True \<and>
   map (occurs_in ''upgrade'' \<circ> snd) (snd (NewConfig show_addr env_debug (Some 1) (Some 2))) = [True]"
  by code_simp

text \<open>
  C6. When \<open>NewConfig\<close> has written the debug line, the record it returns is the
  record of the three passes after the seconds rule, in every field; its token is the
  token the passes read, not the marker.
\<close>

theorem debug_emission_leaves_record:
  assumes "NewConfig sw e out err = (Inr cfg, tr)" and "tr \<noteq> []"
    and "three_passes e out err = Inr c3"
  shows "cfg = infer_seconds c3 \<and> KubeToken cfg = KubeToken c3 \<and>
         (\<forall>f. get_field f cfg = get_field f (infer_seconds c3))"
  using assms by (auto simp: NewConfig_def Let_def writers_infer_seconds)

theorem debug_emission_leaves_record_witness:
  "three_passes env_debug None (Some 2) =
     Inr ((zero_Config None (Some 2))\<lparr>Command := ''upgrade'', Debug := True, KubeToken := ''upgrade''\<rparr>) \<and>
   map_sum id KubeToken (fst (NewConfig show_addr env_debug None (Some 2))) = Inr ''upgrade''"
proof -
  let ?c3 = "(zero_Config None (Some 2))\<lparr>Command := ''upgrade'', Debug := True, KubeToken := ''upgrade''\<rparr>"
  have h3: "three_passes env_debug None (Some 2) = Inr ?c3" by code_simp
  have h2: "snd (NewConfig show_addr env_debug None (Some 2)) \<noteq> []" by code_simp
  obtain cfg tr where h1: "NewConfig show_addr env_debug None (Some 2) = (Inr cfg, tr)"
    using h3 by (simp add: NewConfig_def Let_def)
  from h2 h1 have "tr \<noteq> []" by simp
  from debug_emission_leaves_record [OF h1 this h3]
  have "KubeToken cfg = KubeToken ?c3" by blast
  then have "KubeToken cfg = ''upgrade''" by simp
  with h1 h3 show ?thesis by simp
qed

subsection \<open>Failure\<close>



text \<open>
  C8, as amended. For every field of type bool the conversion yields true for exactly
  \<^verbatim>\<open>1\<close>, \<^verbatim>\<open>t\<close>, \<^verbatim>\<open>T\<close>, \<^verbatim>\<open>true\<close>, \<^verbatim>\<open>TRUE\<close>, \<^verbatim>\<open>True\<close>, false for exactly \<^verbatim>\<open>0\<close>, \<^verbatim>\<open>f\<close>, \<^verbatim>\<open>F\<close>,
  \<^verbatim>\<open>false\<close>, \<^verbatim>\<open>FALSE\<close>, \<^verbatim>\<open>False\<close>, and fails on every other string; the value converted
  is the value the field then holds.
\<close>

theorem bool_coercion_accepted_set:
  assumes "kind_of f = KBool"
  shows "processField s f c =
           (if s \<in> {''1'', ''t'', ''T'', ''true'', ''TRUE'', ''True''} then Some (set_field f (VBool True) c)
            else if s \<in> {''0'', ''f'', ''F'', ''false'', ''FALSE'', ''False''}
            then Some (set_field f (VBool False) c)
            else None) \<and>
         get_field f (set_field f (VBool b) c) = VBool b"
proof -
  have "decode (kind_of f) (if b then ''true'' else ''false'') = Some (VBool b)"
    by (simp add: assms ParseBool_def)
  from get_set_same [OF this] show ?thesis
    by (simp add: processField_def assms ParseBool_def)
qed

theorem bool_coercion_accepted_set_witness:
  "kind_of F_Debug = KBool \<and>
   processField ''TRUE'' F_Debug (zero_Config None None) = Some ((zero_Config None None)\<lparr>Debug := True\<rparr>) \<and>
   processField ''0'' F_Debug (zero_Config None None) = Some ((zero_Config None None)\<lparr>Debug := False\<rparr>) \<and>
   processField ''yes'' F_Debug (zero_Config None None) = None"
proof -
  have h: "kind_of F_Debug = KBool" by (simp add: kind_of_def)
  from bool_coercion_accepted_set [OF h, of "''TRUE''" "zero_Config None None"]
    bool_coercion_accepted_set [OF h, of "''0''" "zero_Config None None"]
    bool_coercion_accepted_set [OF h, of "''yes''" "zero_Config None None"] h
  show ?thesis by (simp add: bool_of_def)
qed

text \<open>
  The claim as it is worded accepts \<^verbatim>\<open>true\<close> in any letter case; \<^verbatim>\<open>tRuE\<close> is refused, and
  \<open>NewConfig\<close> fails on \<^verbatim>\<open>PLUGIN_DEBUG=tRuE\<close>.
\<close>

theorem mixed_case_true_counterexample:
  "kind_of F_Debug = KBool \<and>
   processField ''tRuE'' F_Debug (zero_Config None None) = None \<and>
   fst (NewConfig show_addr env_mixed_case None None) =
     Inl (ParseError ''PLUGIN_DEBUG'' ''Debug'' ''bool'' ''tRuE'')"
  by code_simp

subsection \<open>Output\<close>

text \<open>
  C9, as amended. \<open>NewConfig\<close> makes at most one write. Every write goes to the
  stderr argument, which is then not nil (so to no other destination, the stdout
  argument included when the two differ), and is the debug text ended by a newline;
  that text is a single line when no field and no writer of the returned record is
  printed with a newline in it. There is a write exactly when a record is returned
  whose debug flag is set and the stderr argument is not nil.
\<close>

theorem writes_only_debug_line_to_stderr:
  "length (snd (NewConfig sw e out err)) \<le> 1 \<and>
   (\<forall>c\<in>set (snd (NewConfig sw e out err)).
      fst c = err \<and> fst c \<noteq> None \<and> (out \<noteq> err \<longrightarrow> fst c \<noteq> out) \<and>
      (\<exists>cfg body. fst (NewConfig sw e out err) = Inr cfg \<and>
         snd c = ''Generated config: '' @ body @ [CHR 0x0A] \<and>
         (plain_fields sw cfg \<longrightarrow> newline_free body))) \<and>
   (snd (NewConfig sw e out err) \<noteq> [] \<longleftrightarrow>
      (\<exists>cfg. fst (NewConfig sw e out err) = Inr cfg \<and> Debug cfg) \<and> err \<noteq> None)"
proof (cases "three_passes e out err")
  case (Inl x)
  then show ?thesis by (simp add: NewConfig_def)
next
  case (Inr c3)
  let ?cfg = "infer_seconds c3"
  let ?t = "if KubeToken ?cfg \<noteq> [] then ''(redacted)'' else []"
  have se: "Stderr ?cfg = err"
    using three_passes_writers [OF Inr] by (simp add: writers_infer_seconds)
  have R: "NewConfig sw e out err =
             (Inr ?cfg, if Debug ?cfg \<and> err \<noteq> None then logDebug sw ?cfg else [])"
    using Inr se by (simp add: NewConfig_def Let_def)
  have nl: "plain_fields sw ?cfg \<longrightarrow> newline_free (fmt_struct sw (?cfg\<lparr>KubeToken := ?t\<rparr>))"
    using newline_free_struct [of sw ?cfg ?t] by (simp add: newline_free_def)
  show ?thesis
    unfolding R logDebug_eq using se nl by auto
qed

theorem writes_only_debug_line_to_stderr_witness:
  "\<exists>body. snd (NewConfig show_addr env_debug (Some 1) (Some 2)) =
      [(Some 2, ''Generated config: '' @ body @ [CHR 0x0A])] \<and> newline_free body"
proof -
  let ?c = "(zero_Config (Some 1) (Some 2))
              \<lparr>Command := ''upgrade'', Debug := True, KubeToken := ''upgrade''\<rparr>"
  have r: "fst (NewConfig show_addr env_debug (Some 1) (Some 2)) = Inr ?c" by code_simp
  have p: "plain_fields show_addr ?c" by code_simp
  have h: "snd (NewConfig show_addr env_debug (Some 1) (Some 2)) \<noteq> []" by code_simp
  then obtain c cs where cs: "snd (NewConfig show_addr env_debug (Some 1) (Some 2)) = c # cs"
    by (cases "snd (NewConfig show_addr env_debug (Some 1) (Some 2))") auto
  from writes_only_debug_line_to_stderr [of show_addr env_debug "Some 1" "Some 2"] cs r p
  have "cs = []" "fst c = Some 2"
    "\<exists>body. snd c = ''Generated config: '' @ body @ [CHR 0x0A] \<and> newline_free body"
    by auto
  with cs show ?thesis by (cases c) auto
qed

text \<open>
  The claim as it is worded has the write be exactly one line. The values are printed
  as they are: with \<^verbatim>\<open>DEBUG=true\<close> and a \<^verbatim>\<open>VALUES\<close> of two lines the text written
  holds two newlines.
\<close>

theorem two_lines_counterexample:
  "map_sum id Values (fst (NewConfig show_addr env_multiline None (Some 2))) =
     Inr [CHR ''a'', CHR 0x0A, CHR ''b''] \<and>
   map (\<lambda>c. length (filter (\<lambda>x. x = CHR 0x0A) (snd c)))
     (snd (NewConfig show_addr env_multiline None (Some 2))) = [2]"
  by code_simp

subsection \<open>The prefix field\<close>



end
